theory Spec2Isabelle
  imports Main
begin

section \<open>MergePDF: merging the front-side and back-side scans of a document\<close>

text \<open>
  A shallow embedding of \<^verbatim>\<open>src/mergeScans.py\<close>. The class \<^verbatim>\<open>MergePDF\<close> becomes a
  record of its attributes, extended by the two parts of the outside world its methods
  act on: the files of the working directory and the lines printed to the console.
  Every method becomes a function from a state to a state, or to an exception.
\<close>

subsection \<open>Pages, documents, exceptions, console\<close>

text \<open>
  A page carries an opaque content and a rotation attribute (the \<^verbatim>\<open>/Rotate\<close> entry of
  the PDF page). A document is the list of its pages, as \<^verbatim>\<open>PdfReader(...).pages\<close>
  presents it.
\<close>

record 'a page =
  content :: 'a
  rotation :: int

type_synonym 'a document = "'a page list"

text \<open>The exceptions of the model. The first five are subclasses of \<^verbatim>\<open>OSError\<close>.\<close>

datatype error =
    FileNotFoundError
  | FileExistsError
  | IsADirectoryError
  | NotADirectoryError
  | ShutilError
  | IndexError
  | ValueError

fun is_OSError :: "error \<Rightarrow> bool" where
  "is_OSError FileNotFoundError = True"
| "is_OSError FileExistsError = True"
| "is_OSError IsADirectoryError = True"
| "is_OSError NotADirectoryError = True"
| "is_OSError ShutilError = True"
| "is_OSError IndexError = False"
| "is_OSError ValueError = False"

text \<open>
  One constructor for each \<^verbatim>\<open>print\<close> of the source, with the values its f-string
  interpolates:
  \<^item> \<open>EqualPages\<close>: "Odd pages are equal to even pages: executing merge."
  \<^item> \<open>UnequalPages\<close>: "Odd pages are not equal to even pages: aborting."
  \<^item> \<open>RotatedOdd angle\<close>: "Rotated all odd pages by {angle} degrees."
  \<^item> \<open>RotatedEven angle\<close>: "Rotated all even pages by {angle} degrees."
  \<^item> \<open>InvalidTarget\<close>: "Invalid target specified. Use 'odd' or 'even'."
  \<^item> \<open>MergedInto name\<close>: "Documents merged successfully into {self.merged}"
  \<^item> \<open>MovedTo folder\<close>: "Moved input files to '{self.archive_folder}' with updated names."
  \<^item> \<open>MoveError e\<close>: "Error while moving files: {e}"
  \<^item> \<open>Finished\<close>: "Finished successfully."
\<close>

datatype console =
    EqualPages
  | UnequalPages
  | RotatedOdd int
  | RotatedEven int
  | InvalidTarget
  | MergedInto string
  | MovedTo string
  | MoveError error
  | Finished

subsection \<open>The files of the working directory\<close>

text \<open>
  The file system maps a path, relative to the working directory and in canonical form,
  to what is stored there: a regular file holding a PDF document, or a directory.
  Symbolic links, permissions and several devices are not modelled.
\<close>

datatype 'a node = File "'a document" | Dir

type_synonym 'a filesystem = "string \<Rightarrow> 'a node option"

text \<open>The path functions of \<^verbatim>\<open>os.path\<close> (POSIX flavour) that the source and
  \<^verbatim>\<open>shutil.move\<close> use.\<close>

definition os_path_join :: "string \<Rightarrow> string \<Rightarrow> string" where
  "os_path_join a b =
     (if take 1 b = ''/'' then b
      else if a = [] \<or> last a = CHR ''/'' then a @ b
      else a @ ''/'' @ b)"

definition os_path_basename :: "string \<Rightarrow> string" where
  "os_path_basename p = rev (takeWhile (\<lambda>c. c \<noteq> CHR ''/'') (rev p))"

definition rstrip_sep :: "string \<Rightarrow> string" where
  "rstrip_sep p = rev (dropWhile (\<lambda>c. c = CHR ''/'') (rev p))"

definition os_path_dirname :: "string \<Rightarrow> string" where
  "os_path_dirname p =
     (let head = rev (dropWhile (\<lambda>c. c \<noteq> CHR ''/'') (rev p))
      in if rstrip_sep head = [] then head else rstrip_sep head)"

definition os_path_exists :: "'a filesystem \<Rightarrow> string \<Rightarrow> bool" where
  "os_path_exists f p = (f p \<noteq> None)"

definition os_path_isdir :: "'a filesystem \<Rightarrow> string \<Rightarrow> bool" where
  "os_path_isdir f p = (f p = Some Dir)"

text \<open>
  \<^verbatim>\<open>os.makedirs(p)\<close>, called only where \<open>p\<close> does not exist. The source calls it on
  the folder name \<^verbatim>\<open>'archive'\<close>, which has no intermediate directory to create.
\<close>

definition os_makedirs :: "'a filesystem \<Rightarrow> string \<Rightarrow> 'a filesystem" where
  "os_makedirs f p = f(p \<mapsto> Dir)"

text \<open>
  What stands in the way of creating or replacing the entry \<open>p\<close>: the directory that is
  to hold it is missing, or is a regular file. The empty directory name is the working
  directory itself.
\<close>

definition parent_error :: "'a filesystem \<Rightarrow> string \<Rightarrow> error option" where
  "parent_error f p =
     (let d = os_path_dirname p in
      if d = [] then None
      else (case f d of
              None \<Rightarrow> Some FileNotFoundError
            | Some (File _) \<Rightarrow> Some NotADirectoryError
            | Some Dir \<Rightarrow> None))"

subsection \<open>The object\<close>

text \<open>
  The attributes of \<^verbatim>\<open>self\<close> in the order the source assigns them, then the file
  system and the console. \<^verbatim>\<open>self.odd\<close> and \<^verbatim>\<open>self.even\<close> are \<open>odd_file\<close> and
  \<open>even_file\<close> here (\<open>odd\<close> and \<open>even\<close> are the parity predicates of HOL), and
  \<^verbatim>\<open>self.merge\<close>, the \<^verbatim>\<open>PdfWriter\<close>, is the list of the pages added to it so far.
\<close>

record 'a state =
  odd_file :: string
  even_file :: string
  merged :: string
  archive_folder :: string
  odd_reader :: "'a document"
  even_reader :: "'a document"
  odd_pages :: nat
  even_pages :: nat
  check :: bool
  merge :: "'a document"
  fs :: "'a filesystem"
  out :: "console list"

definition print :: "console \<Rightarrow> 'a state \<Rightarrow> 'a state" where
  "print l s = s\<lparr>out := out s @ [l]\<rparr>"

subsection \<open>\<^verbatim>\<open>open_files\<close> and \<^verbatim>\<open>check_pages\<close>\<close>

text \<open>
  \<^verbatim>\<open>PdfReader(name)\<close> opens the file for reading: a missing file raises
  \<^verbatim>\<open>FileNotFoundError\<close>, a directory \<^verbatim>\<open>IsADirectoryError\<close>.
\<close>

definition PdfReader :: "'a filesystem \<Rightarrow> string \<Rightarrow> error + 'a document" where
  "PdfReader f name =
     (case f name of
        None \<Rightarrow> Inl FileNotFoundError
      | Some Dir \<Rightarrow> Inl IsADirectoryError
      | Some (File d) \<Rightarrow> Inr d)"

definition open_files :: "'a state \<Rightarrow> error + 'a state" where
  "open_files s =
     (case PdfReader (fs s) (odd_file s) of
        Inl e \<Rightarrow> Inl e
      | Inr d1 \<Rightarrow>
          (case PdfReader (fs s) (even_file s) of
             Inl e \<Rightarrow> Inl e
           | Inr d2 \<Rightarrow>
               Inr (s\<lparr>odd_reader := d1, even_reader := d2,
                      odd_pages := length d1, even_pages := length d2\<rparr>)))"

definition check_pages :: "'a state \<Rightarrow> 'a state" where
  "check_pages s =
     (if odd_pages s = even_pages s
      then print EqualPages (s\<lparr>check := True\<rparr>)
      else print UnequalPages (s\<lparr>check := False\<rparr>))"

subsection \<open>\<^verbatim>\<open>merge_files\<close>\<close>

text \<open>\<^verbatim>\<open>pages[i]\<close> for an index \<open>i \<ge> 0\<close>: out of range raises \<^verbatim>\<open>IndexError\<close>.\<close>

definition getitem :: "'b list \<Rightarrow> nat \<Rightarrow> error + 'b" where
  "getitem xs i = (if i < length xs then Inr (xs ! i) else Inl IndexError)"

text \<open>
  The list comprehension \<^verbatim>\<open>[pages[i] for i in indices]\<close>: the first access that raises
  ends it.
\<close>

fun comprehension :: "'b list \<Rightarrow> nat list \<Rightarrow> error + 'b list" where
  "comprehension pages [] = Inr []"
| "comprehension pages (i # is) =
     (case getitem pages i of
        Inl e \<Rightarrow> Inl e
      | Inr p \<Rightarrow>
          (case comprehension pages is of
             Inl e \<Rightarrow> Inl e
           | Inr ps \<Rightarrow> Inr (p # ps)))"

text \<open>
  The loop \<^verbatim>\<open>for x in range(self.odd_pages)\<close> over the indices still to visit, with the
  pages added to the writer so far.
\<close>

fun add_pages :: "'b list \<Rightarrow> 'b list \<Rightarrow> nat list \<Rightarrow> 'b list \<Rightarrow> error + 'b list" where
  "add_pages odds revs [] w = Inr w"
| "add_pages odds revs (x # xs) w =
     (case getitem odds x of
        Inl e \<Rightarrow> Inl e
      | Inr p \<Rightarrow>
          (case getitem revs x of
             Inl e \<Rightarrow> Inl e
           | Inr q \<Rightarrow> add_pages odds revs xs (w @ [p, q])))"

text \<open>
  \<^verbatim>\<open>open(name, 'wb')\<close> followed by \<^verbatim>\<open>write\<close>: creates the file or replaces its
  content. A directory under that name raises \<^verbatim>\<open>IsADirectoryError\<close>, and the
  directory that is to hold the file must be there.
\<close>

definition write_file :: "'a filesystem \<Rightarrow> string \<Rightarrow> 'a document \<Rightarrow> error + 'a filesystem" where
  "write_file f name d =
     (case f name of
        Some Dir \<Rightarrow> Inl IsADirectoryError
      | _ \<Rightarrow>
          (case parent_error f name of
             Some e \<Rightarrow> Inl e
           | None \<Rightarrow> Inr (f(name \<mapsto> File d))))"

text \<open>When \<^verbatim>\<open>open(name, 'wb')\<close> succeeds.\<close>

definition writable :: "'a filesystem \<Rightarrow> string \<Rightarrow> bool" where
  "writable f name = (f name \<noteq> Some Dir \<and> parent_error f name = None)"

text \<open>
  \<^verbatim>\<open>range(self.even_pages - 1, -1, -1)\<close> counts from \<open>even_pages - 1\<close> down to \<open>0\<close>,
  and \<^verbatim>\<open>range(self.odd_pages)\<close> from \<open>0\<close> up to \<open>odd_pages - 1\<close>.
\<close>

definition merge_files :: "'a state \<Rightarrow> error + 'a state" where
  "merge_files s =
     (let s1 = s\<lparr>merge := []\<rparr> in
      case comprehension (even_reader s1) (rev [0..<even_pages s1]) of
        Inl e \<Rightarrow> Inl e
      | Inr reversed_even_pages \<Rightarrow>
          (case add_pages (odd_reader s1) reversed_even_pages [0..<odd_pages s1] (merge s1) of
             Inl e \<Rightarrow> Inl e
           | Inr w \<Rightarrow>
               let s2 = s1\<lparr>merge := w\<rparr> in
               (case write_file (fs s2) (merged s2) (merge s2) of
                  Inl e \<Rightarrow> Inl e
                | Inr f \<Rightarrow> Inr (print (MergedInto (merged s2)) (s2\<lparr>fs := f\<rparr>)))))"

subsection \<open>\<^verbatim>\<open>rotate_pages\<close>\<close>

text \<open>
  Modelled from the spec: \<^verbatim>\<open>page.rotate(angle)\<close>, a method of PyPDF2's page objects,
  is not among the sources of the repository. The rotation attribute of a page is an
  angle in degrees, a multiple of 90, modulo 360; the angle given must be a multiple of
  90, and rotating adds it to the attribute. An angle that is not a multiple of 90 is
  refused with \<^verbatim>\<open>ValueError\<close>.
\<close>

definition page_rotate :: "int \<Rightarrow> 'a page \<Rightarrow> error + 'a page" where
  "page_rotate angle p =
     (if angle mod 90 \<noteq> 0 then Inl ValueError
      else Inr (p\<lparr>rotation := (rotation p + angle) mod 360\<rparr>))"

text \<open>
  The loop \<^verbatim>\<open>for page in pages: page.rotate(angle)\<close>. The pages are rotated in place;
  the model returns the document with the rotated pages, or the exception that ended
  the loop.
\<close>

fun rotate_each :: "int \<Rightarrow> 'a document \<Rightarrow> error + 'a document" where
  "rotate_each angle [] = Inr []"
| "rotate_each angle (p # ps) =
     (case page_rotate angle p of
        Inl e \<Rightarrow> Inl e
      | Inr p' \<Rightarrow>
          (case rotate_each angle ps of
             Inl e \<Rightarrow> Inl e
           | Inr ps' \<Rightarrow> Inr (p' # ps')))"

definition rotate_pages :: "'a state \<Rightarrow> string \<Rightarrow> int \<Rightarrow> error + 'a state" where
  "rotate_pages s target angle =
     (if target = ''odd'' then
        (case rotate_each angle (odd_reader s) of
           Inl e \<Rightarrow> Inl e
         | Inr ps \<Rightarrow> Inr (print (RotatedOdd angle) (s\<lparr>odd_reader := ps\<rparr>)))
      else if target = ''even'' then
        (case rotate_each angle (even_reader s) of
           Inl e \<Rightarrow> Inl e
         | Inr ps \<Rightarrow> Inr (print (RotatedEven angle) (s\<lparr>even_reader := ps\<rparr>)))
      else Inr (print InvalidTarget s))"

subsection \<open>\<^verbatim>\<open>move_files\<close>\<close>

text \<open>
  \<^verbatim>\<open>shutil.move(src, dst)\<close>. A destination that is a directory receives the source
  under the source's base name, unless that name is taken there already
  (\<^verbatim>\<open>shutil.Error\<close>). Otherwise the source is renamed to \<open>dst\<close>, and a regular file
  already stored under \<open>dst\<close> is replaced: neither \<^verbatim>\<open>os.rename\<close> nor the copy that
  \<^verbatim>\<open>shutil.move\<close> falls back on refuses it. A directory is moved as one entry; the
  pipeline moves the two inputs only, which it has read as PDF files before.
\<close>

definition shutil_move :: "'a filesystem \<Rightarrow> string \<Rightarrow> string \<Rightarrow> error + 'a filesystem" where
  "shutil_move f src dst =
     (if os_path_isdir f dst \<and> src = dst then Inr f
      else
        let real_dst =
              (if os_path_isdir f dst then os_path_join dst (os_path_basename (rstrip_sep src))
               else dst)
        in if os_path_isdir f dst \<and> os_path_exists f real_dst then Inl ShutilError
           else (case f src of
                   None \<Rightarrow> Inl FileNotFoundError
                 | Some n \<Rightarrow>
                     (case parent_error f real_dst of
                        Some e \<Rightarrow> Inl e
                      | None \<Rightarrow> Inr ((f(src := None))(real_dst \<mapsto> n)))))"

text \<open>
  The handler \<^verbatim>\<open>except OSError as e: print(...)\<close>: any other exception leaves the
  method.
\<close>

definition except_OSError :: "error \<Rightarrow> 'a state \<Rightarrow> error + 'a state" where
  "except_OSError e s = (if is_OSError e then Inr (print (MoveError e) s) else Inl e)"

text \<open>
  \<open>current_date\<close> is what \<^verbatim>\<open>datetime.now().strftime("%Y-%m-%d")\<close> returns when the
  method runs.
\<close>

definition move_files :: "string \<Rightarrow> 'a state \<Rightarrow> error + 'a state" where
  "move_files current_date s =
     (let s1 = (if \<not> os_path_exists (fs s) (archive_folder s)
                then s\<lparr>fs := os_makedirs (fs s) (archive_folder s)\<rparr>
                else s);
          odd_new_name = os_path_join (archive_folder s1) (current_date @ ''_'' @ odd_file s1);
          even_new_name = os_path_join (archive_folder s1) (current_date @ ''_'' @ even_file s1)
      in case shutil_move (fs s1) (odd_file s1) odd_new_name of
           Inl e \<Rightarrow> except_OSError e s1
         | Inr f1 \<Rightarrow>
             (case shutil_move f1 (even_file s1) even_new_name of
                Inl e \<Rightarrow> except_OSError e (s1\<lparr>fs := f1\<rparr>)
              | Inr f2 \<Rightarrow> Inr (print (MovedTo (archive_folder s1)) (s1\<lparr>fs := f2\<rparr>))))"

subsection \<open>The constructor, which runs the pipeline\<close>

text \<open>
  \<open>now_minute\<close> is what \<^verbatim>\<open>datetime.now().strftime("%Y%m%d_%H%M")\<close> returns when the
  object is constructed, \<open>current_date\<close> the date that \<^verbatim>\<open>move_files\<close> reads later, and
  \<open>f\<close> the files of the working directory at the start. The attributes that the source
  assigns later start empty; each is assigned before it is read.
\<close>

definition initial :: "string \<Rightarrow> 'a filesystem \<Rightarrow> 'a state" where
  "initial now_minute f =
     \<lparr>odd_file = ''PRT_FRONT_000975.pdf'',
      even_file = ''PRT_BACK_000995.pdf'',
      merged = ''merged_'' @ now_minute @ ''.pdf'',
      archive_folder = ''archive'',
      odd_reader = [], even_reader = [], odd_pages = 0, even_pages = 0,
      check = False, merge = [], fs = f, out = []\<rparr>"

definition MergePDF_init :: "string \<Rightarrow> string \<Rightarrow> 'a filesystem \<Rightarrow> error + 'a state" where
  "MergePDF_init now_minute current_date f =
     (case open_files (initial now_minute f) of
        Inl e \<Rightarrow> Inl e
      | Inr s1 \<Rightarrow>
          let s2 = check_pages s1 in
          if check s2 then
            (case merge_files s2 of
               Inl e \<Rightarrow> Inl e
             | Inr s3 \<Rightarrow>
                 (case move_files current_date s3 of
                    Inl e \<Rightarrow> Inl e
                  | Inr s4 \<Rightarrow> Inr (print Finished s4)))
          else Inr s2)"

subsection \<open>Example data\<close>

text \<open>Pages named by their content, and a working directory holding two scans of three
  pages each.\<close>

abbreviation pg :: "string \<Rightarrow> string page" where
  "pg name \<equiv> \<lparr>content = name, rotation = 0\<rparr>"

abbreviation scans3 :: "string filesystem" where
  "scans3 \<equiv> map_of
     [(''PRT_FRONT_000975.pdf'', File [pg ''F1'', pg ''F2'', pg ''F3'']),
      (''PRT_BACK_000995.pdf'', File [pg ''B1'', pg ''B2'', pg ''B3''])]"

text \<open>Two empty scans, and a front scan of four pages with a back scan of five.\<close>

abbreviation scans0 :: "string filesystem" where
  "scans0 \<equiv> map_of [(''PRT_FRONT_000975.pdf'', File []), (''PRT_BACK_000995.pdf'', File [])]"

abbreviation scans45 :: "string filesystem" where
  "scans45 \<equiv> map_of
     [(''PRT_FRONT_000975.pdf'', File [pg ''F1'', pg ''F2'', pg ''F3'', pg ''F4'']),
      (''PRT_BACK_000995.pdf'', File [pg ''B1'', pg ''B2'', pg ''B3'', pg ''B4'', pg ''B5''])]"

text \<open>The object after the two scans of three pages have been read and checked.\<close>

abbreviation two_docs :: "string state" where
  "two_docs \<equiv> (initial ''20250103_1200'' scans3)
     \<lparr>odd_reader := [pg ''F1'', pg ''F2'', pg ''F3''],
      even_reader := [pg ''B1'', pg ''B2'', pg ''B3''],
      odd_pages := 3, even_pages := 3, check := True, out := [EqualPages]\<rparr>"

text \<open>
  A working directory whose archive already holds a file under the name the front scan
  is to receive, one whose archive holds a directory under that name, and one where
  \<^verbatim>\<open>archive\<close> is a regular file; for the last, the object after reading and after
  merging the two scans of one page.
\<close>

abbreviation archived_before :: "string filesystem" where
  "archived_before \<equiv> map_of
     [(''PRT_FRONT_000975.pdf'', File [pg ''F1'']),
      (''PRT_BACK_000995.pdf'', File [pg ''B1'']),
      (''archive'', Dir),
      (''archive/2025-01-03_PRT_FRONT_000975.pdf'', File [pg ''OLD''])]"

abbreviation directory_in_archive :: "string filesystem" where
  "directory_in_archive \<equiv> map_of
     [(''PRT_FRONT_000975.pdf'', File [pg ''F1'']),
      (''PRT_BACK_000995.pdf'', File [pg ''B1'']),
      (''archive'', Dir),
      (''archive/2025-01-03_PRT_FRONT_000975.pdf'', Dir)]"

abbreviation archive_is_file :: "string filesystem" where
  "archive_is_file \<equiv> map_of
     [(''PRT_FRONT_000975.pdf'', File [pg ''F1'']),
      (''PRT_BACK_000995.pdf'', File [pg ''B1'']),
      (''archive'', File [])]"

abbreviation read1 :: "string state" where
  "read1 \<equiv> (initial ''20250103_1200'' archive_is_file)
     \<lparr>odd_reader := [pg ''F1''], even_reader := [pg ''B1''], odd_pages := 1, even_pages := 1\<rparr>"

abbreviation merged1 :: "string state" where
  "merged1 \<equiv> read1
     \<lparr>check := True, merge := [pg ''F1'', pg ''B1''],
      fs := archive_is_file(''merged_20250103_1200.pdf'' \<mapsto> File [pg ''F1'', pg ''B1'']),
      out := [EqualPages, MergedInto ''merged_20250103_1200.pdf'']\<rparr>"

section \<open>Properties\<close>

subsection \<open>Auxiliary facts about the merge\<close>

lemmas path_defs = os_path_join_def os_path_basename_def rstrip_sep_def os_path_dirname_def
  os_path_exists_def os_path_isdir_def os_makedirs_def parent_error_def writable_def

lemmas stage_defs = initial_def open_files_def PdfReader_def check_pages_def print_def
  merge_files_def getitem_def write_file_def

lemma comprehension_in_range:
  "\<forall>i\<in>set is. i < length pages \<Longrightarrow> comprehension pages is = Inr (map (\<lambda>i. pages ! i) is)"
  by (induction "is") (simp_all add: getitem_def)

lemma comprehension_rev_upt:
  "comprehension pages (rev [0..<length pages]) = Inr (rev pages)"
proof -
  have "comprehension pages (rev [0..<length pages]) = Inr (map (\<lambda>i. pages ! i) (rev [0..<length pages]))"
    by (rule comprehension_in_range) simp
  also have "map (\<lambda>i. pages ! i) (rev [0..<length pages]) = rev (map (\<lambda>i. pages ! i) [0..<length pages])"
    by (simp add: rev_map)
  also have "map (\<lambda>i. pages ! i) [0..<length pages] = pages"
    by (rule map_nth)
  finally show ?thesis .
qed

lemma add_pages_in_range:
  "\<forall>x\<in>set xs. x < length odds \<and> x < length revs \<Longrightarrow>
   add_pages odds revs xs w = Inr (w @ concat (map (\<lambda>x. [odds ! x, revs ! x]) xs))"
  by (induction xs arbitrary: w) (simp_all add: getitem_def)

lemma length_concat_pairs: "length (concat (map (\<lambda>x. [f x, g x]) xs)) = 2 * length xs"
  by (induction xs) simp_all

lemma concat_pairs_nth:
  "i < length xs \<Longrightarrow>
   concat (map (\<lambda>x. [f x, g x]) xs) ! (2 * i) = f (xs ! i) \<and>
   concat (map (\<lambda>x. [f x, g x]) xs) ! (2 * i + 1) = g (xs ! i)"
proof (induction xs arbitrary: i)
  case Nil
  then show ?case by simp
next
  case (Cons x xs)
  show ?case
  proof (cases i)
    case 0
    then show ?thesis by simp
  next
    case (Suc j)
    with Cons.prems have "j < length xs" by simp
    from Cons.IH[OF this] Suc show ?thesis by simp
  qed
qed

lemma write_file_writable:
  "writable f name \<Longrightarrow> write_file f name d = Inr (f(name \<mapsto> File d))"
  by (auto simp: writable_def write_file_def split: option.splits node.splits)

lemma merge_files_equal:
  assumes "odd_pages s = length (odd_reader s)"
    and "even_pages s = length (even_reader s)"
    and "odd_pages s = even_pages s"
    and "writable (fs s) (merged s)"
    and "w = concat (map (\<lambda>x. [odd_reader s ! x, rev (even_reader s) ! x]) [0..<odd_pages s])"
  shows "merge_files s =
    Inr (s\<lparr>merge := w, fs := (fs s)(merged s \<mapsto> File w), out := out s @ [MergedInto (merged s)]\<rparr>)"
proof -
  have c: "comprehension (even_reader s) (rev [0..<even_pages s]) = Inr (rev (even_reader s))"
    using assms(2) by (simp add: comprehension_rev_upt)
  have a: "add_pages (odd_reader s) (rev (even_reader s)) [0..<odd_pages s] [] = Inr w"
    using assms(1,2,3,5) by (simp add: add_pages_in_range)
  show ?thesis
    using assms(4) by (simp add: merge_files_def c a write_file_writable print_def)
qed

lemma open_files_Inr:
  assumes "fs s0 (odd_file s0) = Some (File front)" and "fs s0 (even_file s0) = Some (File back)"
  shows "open_files s0 =
    Inr (s0\<lparr>odd_reader := front, even_reader := back,
            odd_pages := length front, even_pages := length back\<rparr>)"
  using assms by (simp add: open_files_def PdfReader_def)

lemma merge_after_check:
  assumes "fs s0 (odd_file s0) = Some (File front)" and "fs s0 (even_file s0) = Some (File back)"
    and "length front = length back" and "writable (fs s0) (merged s0)"
    and "w = concat (map (\<lambda>x. [front ! x, rev back ! x]) [0..<length front])"
    and "s1 = s0\<lparr>odd_reader := front, even_reader := back,
            odd_pages := length front, even_pages := length back\<rparr>"
  shows "open_files s0 = Inr s1 \<and> check (check_pages s1) \<and>
    merge_files (check_pages s1) =
      Inr (s1\<lparr>check := True, merge := w, fs := (fs s0)(merged s0 \<mapsto> File w),
              out := out s0 @ [EqualPages, MergedInto (merged s0)]\<rparr>)"
proof -
  have o: "open_files s0 = Inr s1"
    using assms(1,2,6) by (simp add: open_files_Inr)
  have c: "check_pages s1 = s1\<lparr>check := True, out := out s0 @ [EqualPages]\<rparr>"
    using assms(3,6) by (simp add: check_pages_def print_def)
  have m: "merge_files (s1\<lparr>check := True, out := out s0 @ [EqualPages]\<rparr>) =
      Inr (s1\<lparr>check := True, merge := w, fs := (fs s0)(merged s0 \<mapsto> File w),
              out := out s0 @ [EqualPages, MergedInto (merged s0)]\<rparr>)"
    using assms(3,4,5,6) by (subst merge_files_equal[where w = w]) simp_all
  show ?thesis using o c m by simp
qed

lemma open_files_counts:
  "open_files s0 = Inr s1 \<Longrightarrow>
   odd_pages s1 = length (odd_reader s1) \<and> even_pages s1 = length (even_reader s1)"
  by (auto simp: open_files_def split: sum.splits)

lemma check_pages_frame:
  "odd_reader (check_pages s) = odd_reader s \<and> even_reader (check_pages s) = even_reader s \<and>
   odd_pages (check_pages s) = odd_pages s \<and> even_pages (check_pages s) = even_pages s \<and>
   fs (check_pages s) = fs s \<and> merged (check_pages s) = merged s"
  by (simp add: check_pages_def print_def)

lemma check_pages_check: "check (check_pages s) = (odd_pages s = even_pages s)"
  by (simp add: check_pages_def print_def)

lemma write_file_error:
  "write_file f name d = Inl e \<Longrightarrow> is_OSError e"
  by (auto simp: write_file_def parent_error_def Let_def split: option.splits node.splits if_splits)

subsection \<open>The interleave-with-reversal law\<close>

text \<open>
  C1. When the front and the back document hold the same number \<open>n\<close> of pages and the
  output file can be written, opening, checking and merging succeed, and the merged
  document \<open>O\<close> that is written satisfies \<open>O[2*i] = front[i]\<close> and
  \<open>O[2*i+1] = back[n-1-i]\<close> for every \<open>i\<close> in \<open>0..n-1\<close>.
\<close>

theorem merge_interleaves_reversed:
  assumes "fs s0 (odd_file s0) = Some (File front)" and "fs s0 (even_file s0) = Some (File back)"
    and "length front = length back" and "writable (fs s0) (merged s0)"
  shows "\<exists>s1 s3. open_files s0 = Inr s1 \<and> check (check_pages s1) \<and>
    merge_files (check_pages s1) = Inr s3 \<and>
    fs s3 (merged s0) = Some (File (merge s3)) \<and>
    (\<forall>i<length front.
       merge s3 ! (2 * i) = front ! i \<and>
       merge s3 ! (2 * i + 1) = back ! (length back - 1 - i))"
proof -
  define w where "w = concat (map (\<lambda>x. [front ! x, rev back ! x]) [0..<length front])"
  define s1 where "s1 = s0\<lparr>odd_reader := front, even_reader := back,
            odd_pages := length front, even_pages := length back\<rparr>"
  have nth: "w ! (2 * i) = front ! i \<and> w ! (2 * i + 1) = back ! (length back - 1 - i)"
    if "i < length front" for i
  proof -
    have "i < length [0..<length front]" using that by simp
    from concat_pairs_nth[OF this, of "\<lambda>x. front ! x" "\<lambda>x. rev back ! x"]
    have "w ! (2 * i) = front ! i \<and> w ! (2 * i + 1) = rev back ! i"
      using that by (simp add: w_def)
    moreover have "rev back ! i = back ! (length back - 1 - i)"
      using that assms(3) by (simp add: rev_nth)
    ultimately show ?thesis by simp
  qed
  from merge_after_check[OF assms w_def s1_def] nth show ?thesis
    by (intro exI[of _ s1] exI) (auto simp del: upt_Suc)
qed


text \<open>
  The scenario of the specification: \<open>front = [F1, F2, F3]\<close> and \<open>back = [B1, B2, B3]\<close>
  give \<open>[F1, B3, F2, B2, F3, B1]\<close>.
\<close>

theorem merge_interleaves_reversed_witness:
  "fs (initial ''20250103_1200'' scans3) (odd_file (initial ''20250103_1200'' scans3)) =
     Some (File [pg ''F1'', pg ''F2'', pg ''F3'']) \<and>
   fs (initial ''20250103_1200'' scans3) (even_file (initial ''20250103_1200'' scans3)) =
     Some (File [pg ''B1'', pg ''B2'', pg ''B3'']) \<and>
   length [pg ''F1'', pg ''F2'', pg ''F3''] = length [pg ''B1'', pg ''B2'', pg ''B3''] \<and>
   writable (fs (initial ''20250103_1200'' scans3)) (merged (initial ''20250103_1200'' scans3)) \<and>
   (case open_files (initial ''20250103_1200'' scans3) of
      Inl e \<Rightarrow> False
    | Inr s1 \<Rightarrow>
        (case merge_files (check_pages s1) of
           Inl e \<Rightarrow> False
         | Inr s3 \<Rightarrow>
             merge s3 = [pg ''F1'', pg ''B3'', pg ''F2'', pg ''B2'', pg ''F3'', pg ''B1''] \<and>
             fs s3 ''merged_20250103_1200.pdf'' = Some (File (merge s3))))"
proof -
  have ev: "(case open_files (initial ''20250103_1200'' scans3) of
      Inl e \<Rightarrow> False
    | Inr s1 \<Rightarrow>
        (case merge_files (check_pages s1) of
           Inl e \<Rightarrow> False
         | Inr s3 \<Rightarrow>
             merge s3 = [pg ''F1'', pg ''B3'', pg ''F2'', pg ''B2'', pg ''F3'', pg ''B1''] \<and>
             fs s3 ''merged_20250103_1200.pdf'' = Some (File (merge s3))))"
    by (simp add: stage_defs path_defs upt_rec)
  have w: "writable (fs (initial ''20250103_1200'' scans3)) (merged (initial ''20250103_1200'' scans3))"
    by (simp add: initial_def path_defs)
  show ?thesis
    using ev w
      merge_interleaves_reversed [of "initial ''20250103_1200'' scans3"
        "[pg ''F1'', pg ''F2'', pg ''F3'']" "[pg ''B1'', pg ''B2'', pg ''B3'']"]
    by (simp add: initial_def)
qed

subsection \<open>The length of the merged document\<close>

text \<open>
  C2. When the front and the back document hold the same number \<open>n \<ge> 0\<close> of pages and
  the output file can be written, the merge succeeds and the merged document that is
  written has exactly \<open>2n\<close> pages, the page count of the front plus that of the back.
\<close>

theorem merge_length:
  assumes "fs s0 (odd_file s0) = Some (File front)" and "fs s0 (even_file s0) = Some (File back)"
    and "length front = length back" and "writable (fs s0) (merged s0)"
  shows "\<exists>s1 s3. open_files s0 = Inr s1 \<and> check (check_pages s1) \<and>
    merge_files (check_pages s1) = Inr s3 \<and>
    fs s3 (merged s0) = Some (File (merge s3)) \<and>
    length (merge s3) = 2 * length front \<and>
    length (merge s3) = length front + length back"
proof -
  define w where "w = concat (map (\<lambda>x. [front ! x, rev back ! x]) [0..<length front])"
  define s1 where "s1 = s0\<lparr>odd_reader := front, even_reader := back,
            odd_pages := length front, even_pages := length back\<rparr>"
  have len: "length w = 2 * length front"
    unfolding w_def by (simp only: length_concat_pairs length_upt diff_zero)
  from merge_after_check[OF assms w_def s1_def] len assms(3) show ?thesis
    by (intro exI[of _ s1] exI) (auto simp del: upt_Suc)
qed

theorem merge_length_witness:
  "fs (initial ''20250103_1200'' scans3) (odd_file (initial ''20250103_1200'' scans3)) =
     Some (File [pg ''F1'', pg ''F2'', pg ''F3'']) \<and>
   fs (initial ''20250103_1200'' scans3) (even_file (initial ''20250103_1200'' scans3)) =
     Some (File [pg ''B1'', pg ''B2'', pg ''B3'']) \<and>
   length [pg ''F1'', pg ''F2'', pg ''F3''] = length [pg ''B1'', pg ''B2'', pg ''B3''] \<and>
   writable (fs (initial ''20250103_1200'' scans3)) (merged (initial ''20250103_1200'' scans3)) \<and>
   (case open_files (initial ''20250103_1200'' scans3) of
      Inl e \<Rightarrow> False
    | Inr s1 \<Rightarrow>
        (case merge_files (check_pages s1) of
           Inl e \<Rightarrow> False
         | Inr s3 \<Rightarrow> length (merge s3) = 6))"
proof -
  have ev: "(case open_files (initial ''20250103_1200'' scans3) of
      Inl e \<Rightarrow> False
    | Inr s1 \<Rightarrow>
        (case merge_files (check_pages s1) of
           Inl e \<Rightarrow> False
         | Inr s3 \<Rightarrow> length (merge s3) = 6))"
    by (simp add: stage_defs path_defs upt_rec)
  have w: "writable (fs (initial ''20250103_1200'' scans3)) (merged (initial ''20250103_1200'' scans3))"
    by (simp add: initial_def path_defs)
  show ?thesis
    using ev w
      merge_length [of "initial ''20250103_1200'' scans3"
        "[pg ''F1'', pg ''F2'', pg ''F3'']" "[pg ''B1'', pg ''B2'', pg ''B3'']"]
    by (simp add: initial_def)
qed

subsection \<open>Empty inputs\<close>

text \<open>
  C8. When both inputs hold no page and the output file can be written, both page counts
  are 0, the validator proceeds, and the merge succeeds: the merged document has no page
  and is written under the output name.
\<close>

theorem empty_inputs_merge:
  assumes "fs s0 (odd_file s0) = Some (File [])" and "fs s0 (even_file s0) = Some (File [])"
    and "writable (fs s0) (merged s0)"
  shows "\<exists>s1 s3. open_files s0 = Inr s1 \<and> odd_pages s1 = 0 \<and> even_pages s1 = 0 \<and>
    check (check_pages s1) \<and>
    merge_files (check_pages s1) = Inr s3 \<and>
    merge s3 = [] \<and> fs s3 (merged s0) = Some (File [])"
proof -
  define s1 where "s1 = s0\<lparr>odd_reader := [], even_reader := [],
            odd_pages := length ([] :: 'a page list), even_pages := length ([] :: 'a page list)\<rparr>"
  have "([] :: 'a page list) = concat (map (\<lambda>x. [[] ! x, rev [] ! x]) [0..<length ([] :: 'a page list)])"
    by simp
  from merge_after_check[OF assms(1,2) _ assms(3) this s1_def] show ?thesis
    by (intro exI[of _ s1] exI) (auto simp: s1_def)
qed

theorem empty_inputs_merge_witness:
  "fs (initial ''20250103_1200'' scans0) (odd_file (initial ''20250103_1200'' scans0)) = Some (File []) \<and>
   fs (initial ''20250103_1200'' scans0) (even_file (initial ''20250103_1200'' scans0)) = Some (File []) \<and>
   writable (fs (initial ''20250103_1200'' scans0)) (merged (initial ''20250103_1200'' scans0)) \<and>
   (case open_files (initial ''20250103_1200'' scans0) of
      Inl e \<Rightarrow> False
    | Inr s1 \<Rightarrow>
        check (check_pages s1) \<and>
        (case merge_files (check_pages s1) of
           Inl e \<Rightarrow> False
         | Inr s3 \<Rightarrow>
             merge s3 = [] \<and> fs s3 ''merged_20250103_1200.pdf'' = Some (File [])))"
proof -
  have ev: "(case open_files (initial ''20250103_1200'' scans0) of
      Inl e \<Rightarrow> False
    | Inr s1 \<Rightarrow>
        check (check_pages s1) \<and>
        (case merge_files (check_pages s1) of
           Inl e \<Rightarrow> False
         | Inr s3 \<Rightarrow>
             merge s3 = [] \<and> fs s3 ''merged_20250103_1200.pdf'' = Some (File [])))"
    by (simp add: stage_defs path_defs)
  have w: "writable (fs (initial ''20250103_1200'' scans0)) (merged (initial ''20250103_1200'' scans0))"
    by (simp add: initial_def path_defs)
  show ?thesis
    using ev w empty_inputs_merge [of "initial ''20250103_1200'' scans0"]
    by (simp add: initial_def)
qed

subsection \<open>The accesses of the merge are in bounds\<close>

text \<open>
  C9. After \<^verbatim>\<open>open_files\<close>, when the validator proceeds, the list of the reversed
  back pages is built without an error, for every loop index \<open>x\<close> of
  \<^verbatim>\<open>range(self.odd_pages)\<close> both \<^verbatim>\<open>self.odd_reader.pages[x]\<close> and
  \<^verbatim>\<open>reversed_even_pages[x]\<close> are defined, the loop ends without an error, and
  \<^verbatim>\<open>merge_files\<close> does not raise \<^verbatim>\<open>IndexError\<close>.
\<close>

theorem merge_accesses_in_bounds:
  assumes "open_files s0 = Inr s1" and "check (check_pages s1)"
  shows "\<exists>reversed_even_pages.
    comprehension (even_reader (check_pages s1)) (rev [0..<even_pages (check_pages s1)]) =
      Inr reversed_even_pages \<and>
    (\<forall>x\<in>set [0..<odd_pages (check_pages s1)].
       (\<exists>p. getitem (odd_reader (check_pages s1)) x = Inr p) \<and>
       (\<exists>q. getitem reversed_even_pages x = Inr q)) \<and>
    (\<exists>w. add_pages (odd_reader (check_pages s1)) reversed_even_pages
            [0..<odd_pages (check_pages s1)] [] = Inr w) \<and>
    merge_files (check_pages s1) \<noteq> Inl IndexError"
proof -
  let ?s = "check_pages s1"
  have cnt: "odd_pages ?s = length (odd_reader ?s)" "even_pages ?s = length (even_reader ?s)"
    using open_files_counts[OF assms(1)] by (simp_all add: check_pages_frame)
  have eq: "odd_pages ?s = even_pages ?s"
    using assms(2) by (simp add: check_pages_check check_pages_frame)
  have c: "comprehension (even_reader ?s) (rev [0..<even_pages ?s]) = Inr (rev (even_reader ?s))"
    using cnt(2) by (simp add: comprehension_rev_upt)
  have g: "\<forall>x\<in>set [0..<odd_pages ?s].
       (\<exists>p. getitem (odd_reader ?s) x = Inr p) \<and> (\<exists>q. getitem (rev (even_reader ?s)) x = Inr q)"
    using cnt eq by (simp add: getitem_def)
  have a: "\<exists>w. add_pages (odd_reader ?s) (rev (even_reader ?s)) [0..<odd_pages ?s] [] = Inr w"
    using cnt eq by (simp add: add_pages_in_range)
  then obtain w where w: "add_pages (odd_reader ?s) (rev (even_reader ?s)) [0..<odd_pages ?s] [] = Inr w"
    by blast
  have m: "merge_files ?s \<noteq> Inl IndexError"
  proof
    assume "merge_files ?s = Inl IndexError"
    then have "write_file (fs ?s) (merged ?s) w = Inl IndexError"
      by (simp add: merge_files_def c w Let_def split: sum.splits)
    from write_file_error[OF this] show False by simp
  qed
  from c g a m show ?thesis by blast
qed

theorem merge_accesses_in_bounds_witness:
  "open_files (initial ''20250103_1200'' scans3) =
     Inr ((initial ''20250103_1200'' scans3)
            \<lparr>odd_reader := [pg ''F1'', pg ''F2'', pg ''F3''],
             even_reader := [pg ''B1'', pg ''B2'', pg ''B3''],
             odd_pages := 3, even_pages := 3\<rparr>) \<and>
   check (check_pages ((initial ''20250103_1200'' scans3)
            \<lparr>odd_reader := [pg ''F1'', pg ''F2'', pg ''F3''],
             even_reader := [pg ''B1'', pg ''B2'', pg ''B3''],
             odd_pages := 3, even_pages := 3\<rparr>)) \<and>
   merge_files (check_pages ((initial ''20250103_1200'' scans3)
            \<lparr>odd_reader := [pg ''F1'', pg ''F2'', pg ''F3''],
             even_reader := [pg ''B1'', pg ''B2'', pg ''B3''],
             odd_pages := 3, even_pages := 3\<rparr>)) \<noteq> Inl IndexError"
proof -
  let ?s1 = "(initial ''20250103_1200'' scans3)
            \<lparr>odd_reader := [pg ''F1'', pg ''F2'', pg ''F3''],
             even_reader := [pg ''B1'', pg ''B2'', pg ''B3''],
             odd_pages := 3, even_pages := 3\<rparr>"
  have o: "open_files (initial ''20250103_1200'' scans3) = Inr ?s1"
    by (simp add: initial_def open_files_def PdfReader_def)
  have c: "check (check_pages ?s1)"
    by (simp add: initial_def check_pages_def print_def)
  from merge_accesses_in_bounds [OF o c] o c show ?thesis
    by blast
qed

subsection \<open>Unequal page counts abort the pipeline\<close>

text \<open>
  C3. When the two inputs hold different numbers of pages, the validator sets
  \<^verbatim>\<open>check\<close> to false and the pipeline ends there: the files of the working directory
  are what they were (no merged document is written, no input is moved), nothing was
  added to the writer, and the only line printed is the one that reports the abort.
\<close>

theorem mismatch_aborts:
  assumes "f ''PRT_FRONT_000975.pdf'' = Some (File front)"
    and "f ''PRT_BACK_000995.pdf'' = Some (File back)"
    and "length front \<noteq> length back"
  shows "\<exists>s1 s. open_files (initial now_minute f) = Inr s1 \<and> \<not> check (check_pages s1) \<and>
    MergePDF_init now_minute current_date f = Inr s \<and>
    \<not> check s \<and> fs s = f \<and> merge s = [] \<and> out s = [UnequalPages]"
proof -
  define s1 where "s1 = (initial now_minute f)\<lparr>odd_reader := front, even_reader := back,
            odd_pages := length front, even_pages := length back\<rparr>"
  have o: "open_files (initial now_minute f) = Inr s1"
    unfolding s1_def by (rule open_files_Inr) (simp_all add: initial_def assms)
  have c: "check_pages s1 = s1\<lparr>check := False, out := [UnequalPages]\<rparr>"
    using assms(3) by (simp add: check_pages_def print_def s1_def initial_def)
  have r: "MergePDF_init now_minute current_date f = Inr (s1\<lparr>check := False, out := [UnequalPages]\<rparr>)"
    by (simp add: MergePDF_init_def o c)
  show ?thesis
    using o c r by (simp add: s1_def initial_def)
qed


theorem mismatch_aborts_witness:
  "scans45 ''PRT_FRONT_000975.pdf'' = Some (File [pg ''F1'', pg ''F2'', pg ''F3'', pg ''F4'']) \<and>
   scans45 ''PRT_BACK_000995.pdf'' =
     Some (File [pg ''B1'', pg ''B2'', pg ''B3'', pg ''B4'', pg ''B5'']) \<and>
   length [pg ''F1'', pg ''F2'', pg ''F3'', pg ''F4''] \<noteq>
     length [pg ''B1'', pg ''B2'', pg ''B3'', pg ''B4'', pg ''B5''] \<and>
   (case MergePDF_init ''20250103_1200'' ''2025-01-03'' scans45 of
      Inl e \<Rightarrow> False
    | Inr s \<Rightarrow>
        \<not> check s \<and> fs s = scans45 \<and> out s = [UnequalPages] \<and>
        fs s ''merged_20250103_1200.pdf'' = None \<and> fs s ''archive'' = None)"
proof -
  have h1: "scans45 ''PRT_FRONT_000975.pdf'' = Some (File [pg ''F1'', pg ''F2'', pg ''F3'', pg ''F4''])"
    by simp
  have h2: "scans45 ''PRT_BACK_000995.pdf'' =
     Some (File [pg ''B1'', pg ''B2'', pg ''B3'', pg ''B4'', pg ''B5''])"
    by simp
  have h3: "length [pg ''F1'', pg ''F2'', pg ''F3'', pg ''F4''] \<noteq>
     length [pg ''B1'', pg ''B2'', pg ''B3'', pg ''B4'', pg ''B5'']"
    by simp
  from mismatch_aborts [OF h1 h2 h3, of "''20250103_1200''" "''2025-01-03''"]
  obtain s where "MergePDF_init ''20250103_1200'' ''2025-01-03'' scans45 = Inr s"
    and "\<not> check s" and "fs s = scans45" and "out s = [UnequalPages]"
    by blast
  then show ?thesis
    using h1 h2 by simp
qed

subsection \<open>Auxiliary facts about the rotation\<close>

lemma rotate_each_multiple:
  "angle mod 90 = 0 \<Longrightarrow>
   rotate_each angle ps = Inr (map (\<lambda>p. p\<lparr>rotation := (rotation p + angle) mod 360\<rparr>) ps)"
  by (induction ps) (simp_all add: page_rotate_def)

lemma merge_files_out:
  "merge_files (s\<lparr>out := ls\<rparr>) =
     (case merge_files s of
        Inl e \<Rightarrow> Inl e
      | Inr t \<Rightarrow> Inr (t\<lparr>out := ls @ [MergedInto (merged s)]\<rparr>))"
  by (simp add: merge_files_def print_def Let_def split: sum.splits)

lemma rotate_pages_multiple:
  assumes "angle mod 90 = 0"
  shows "rotate_pages s target angle =
    Inr (if target = ''odd'' then
           s\<lparr>odd_reader := map (\<lambda>p. p\<lparr>rotation := (rotation p + angle) mod 360\<rparr>) (odd_reader s),
             out := out s @ [RotatedOdd angle]\<rparr>
         else if target = ''even'' then
           s\<lparr>even_reader := map (\<lambda>p. p\<lparr>rotation := (rotation p + angle) mod 360\<rparr>) (even_reader s),
             out := out s @ [RotatedEven angle]\<rparr>
         else s\<lparr>out := out s @ [InvalidTarget]\<rparr>)"
  using assms by (simp add: rotate_pages_def rotate_each_multiple print_def)

lemma multiple_add: "(a::int) mod 90 = 0 \<Longrightarrow> b mod 90 = 0 \<Longrightarrow> (a + b) mod 90 = 0"
  by (simp add: mod_eq_0_iff_dvd)

lemma multiple_mod_360: "(a::int) mod 90 = 0 \<Longrightarrow> b mod 90 = 0 \<Longrightarrow> (a + b) mod 360 mod 90 = 0"
proof -
  assume "a mod 90 = 0" and "b mod 90 = 0"
  then have "(a + b) mod 90 = 0" by (rule multiple_add)
  moreover have "(a + b) mod 360 mod 90 = (a + b) mod 90"
    by (rule mod_mod_cancel) simp
  ultimately show ?thesis by simp
qed

lemma rotation_twice: "((r + a) mod 360 + b) mod 360 = (r + (a + b)) mod (360::int)"
  by (simp add: mod_add_left_eq add.assoc)

lemma rotation_reduced: "(r + (a + b) mod 360) mod 360 = (r + (a + b)) mod (360::int)"
  by (simp add: mod_add_right_eq)

subsection \<open>The contract of the rotation\<close>

text \<open>
  C4. The selectors of the source are the strings \<^verbatim>\<open>'odd'\<close> (the front document) and
  \<^verbatim>\<open>'even'\<close> (the back document). For an angle that is a multiple of 90,
  \<^verbatim>\<open>rotate_pages\<close> with one of them returns with every page of the selected document
  rotated by the angle, and reports it. For any other selector it returns with both
  documents and the files as they were and reports the invalid target; it raises
  nothing, and the merge that follows does what it does without that call, but for the
  one more line on the console.
\<close>

theorem rotate_pages_contract:
  "(angle mod 90 = 0 \<longrightarrow>
      (\<exists>ps. rotate_pages s ''odd'' angle = Inr (print (RotatedOdd angle) (s\<lparr>odd_reader := ps\<rparr>)) \<and>
         length ps = length (odd_reader s) \<and>
         (\<forall>i<length ps.
            page_rotate angle (odd_reader s ! i) = Inr (ps ! i) \<and>
            rotation (ps ! i) = (rotation (odd_reader s ! i) + angle) mod 360)) \<and>
      (\<exists>ps. rotate_pages s ''even'' angle = Inr (print (RotatedEven angle) (s\<lparr>even_reader := ps\<rparr>)) \<and>
         length ps = length (even_reader s) \<and>
         (\<forall>i<length ps.
            page_rotate angle (even_reader s ! i) = Inr (ps ! i) \<and>
            rotation (ps ! i) = (rotation (even_reader s ! i) + angle) mod 360))) \<and>
   (target \<noteq> ''odd'' \<and> target \<noteq> ''even'' \<longrightarrow>
      rotate_pages s target angle = Inr (print InvalidTarget s) \<and>
      odd_reader (print InvalidTarget s) = odd_reader s \<and>
      even_reader (print InvalidTarget s) = even_reader s \<and>
      fs (print InvalidTarget s) = fs s \<and>
      out (print InvalidTarget s) = out s @ [InvalidTarget] \<and>
      merge_files (print InvalidTarget s) =
        (case merge_files s of
           Inl e \<Rightarrow> Inl e
         | Inr t \<Rightarrow> Inr (t\<lparr>out := out s @ [InvalidTarget, MergedInto (merged s)]\<rparr>)))"
proof (intro conjI impI)
  assume a: "angle mod 90 = 0"
  let ?r = "\<lambda>p::'a page. p\<lparr>rotation := (rotation p + angle) mod 360\<rparr>"
  show "\<exists>ps. rotate_pages s ''odd'' angle = Inr (print (RotatedOdd angle) (s\<lparr>odd_reader := ps\<rparr>)) \<and>
         length ps = length (odd_reader s) \<and>
         (\<forall>i<length ps.
            page_rotate angle (odd_reader s ! i) = Inr (ps ! i) \<and>
            rotation (ps ! i) = (rotation (odd_reader s ! i) + angle) mod 360)"
    using a by (intro exI[of _ "map ?r (odd_reader s)"])
      (simp add: rotate_pages_def rotate_each_multiple page_rotate_def)
  show "\<exists>ps. rotate_pages s ''even'' angle = Inr (print (RotatedEven angle) (s\<lparr>even_reader := ps\<rparr>)) \<and>
         length ps = length (even_reader s) \<and>
         (\<forall>i<length ps.
            page_rotate angle (even_reader s ! i) = Inr (ps ! i) \<and>
            rotation (ps ! i) = (rotation (even_reader s ! i) + angle) mod 360)"
    using a by (intro exI[of _ "map ?r (even_reader s)"])
      (simp add: rotate_pages_def rotate_each_multiple page_rotate_def)
next
  assume t: "target \<noteq> ''odd'' \<and> target \<noteq> ''even''"
  then show "rotate_pages s target angle = Inr (print InvalidTarget s)"
    by (simp add: rotate_pages_def)
  show "odd_reader (print InvalidTarget s) = odd_reader s" by (simp add: print_def)
  show "even_reader (print InvalidTarget s) = even_reader s" by (simp add: print_def)
  show "fs (print InvalidTarget s) = fs s" by (simp add: print_def)
  show "out (print InvalidTarget s) = out s @ [InvalidTarget]" by (simp add: print_def)
  show "merge_files (print InvalidTarget s) =
        (case merge_files s of
           Inl e \<Rightarrow> Inl e
         | Inr t \<Rightarrow> Inr (t\<lparr>out := out s @ [InvalidTarget, MergedInto (merged s)]\<rparr>))"
    by (simp add: print_def merge_files_out split: sum.splits)
qed

theorem rotate_pages_contract_witness:
  "(180::int) mod 90 = 0 \<and>
   rotate_pages two_docs ''even'' 180 =
     Inr (print (RotatedEven 180)
       (two_docs\<lparr>even_reader :=
          [\<lparr>content = ''B1'', rotation = 180\<rparr>, \<lparr>content = ''B2'', rotation = 180\<rparr>,
           \<lparr>content = ''B3'', rotation = 180\<rparr>]\<rparr>)) \<and>
   ''front'' \<noteq> ''odd'' \<and> ''front'' \<noteq> ''even'' \<and>
   rotate_pages two_docs ''front'' 180 = Inr (print InvalidTarget two_docs)"
  using rotate_pages_contract [of 180 two_docs "''front''"]
  by (simp add: rotate_pages_def page_rotate_def print_def initial_def)

subsection \<open>Two rotations are one\<close>

text \<open>
  C5. For angles \<open>a\<close> and \<open>b\<close> that are multiples of 90 and any selector, rotating by
  \<open>a\<close> and then by \<open>b\<close> leaves the object as one rotation by \<open>(a + b) mod 360\<close> does,
  and as one rotation by \<open>a + b\<close> does (with \<open>a = b\<close>: twice \<open>A\<close> is once \<open>2A\<close>); only
  the lines on the console differ.
\<close>

theorem rotate_pages_compose:
  assumes "a mod 90 = 0" and "b mod 90 = 0"
  shows "\<exists>s1 s2 s3 s4.
    rotate_pages s target a = Inr s1 \<and> rotate_pages s1 target b = Inr s2 \<and>
    rotate_pages s target ((a + b) mod 360) = Inr s3 \<and>
    rotate_pages s target (a + b) = Inr s4 \<and>
    odd_reader s2 = odd_reader s3 \<and> even_reader s2 = even_reader s3 \<and>
    s2\<lparr>out := []\<rparr> = s3\<lparr>out := []\<rparr> \<and> s2\<lparr>out := []\<rparr> = s4\<lparr>out := []\<rparr>"
proof -
  note r = rotate_pages_multiple[OF assms(1)] rotate_pages_multiple[OF assms(2)]
    rotate_pages_multiple[OF multiple_mod_360[OF assms]]
    rotate_pages_multiple[OF multiple_add[OF assms]]
  consider "target = ''odd''" | "target = ''even''" | "target \<noteq> ''odd''" "target \<noteq> ''even''"
    by blast
  then show ?thesis
  proof cases
    case 1
    then show ?thesis
      by (simp add: r rotation_twice rotation_reduced o_def)
  next
    case 2
    then show ?thesis
      by (simp add: r rotation_twice rotation_reduced o_def)
  next
    case 3
    then show ?thesis
      by (simp add: r)
  qed
qed

theorem rotate_pages_compose_witness:
  "(270::int) mod 90 = 0 \<and> (180::int) mod 90 = 0 \<and>
   (case rotate_pages two_docs ''even'' 270 of
      Inl e \<Rightarrow> False
    | Inr s1 \<Rightarrow>
        (case rotate_pages s1 ''even'' 180 of
           Inl e \<Rightarrow> False
         | Inr s2 \<Rightarrow>
             (case rotate_pages two_docs ''even'' ((270 + 180) mod 360) of
                Inl e \<Rightarrow> False
              | Inr s3 \<Rightarrow>
                  even_reader s2 = even_reader s3 \<and> odd_reader s2 = odd_reader s3 \<and>
                  map rotation (even_reader s2) = [90, 90, 90])))"
  using rotate_pages_compose [of 270 180 two_docs "''even''"]
  by (simp add: rotate_pages_def page_rotate_def print_def initial_def)

subsection \<open>What the rotation leaves alone\<close>

text \<open>
  C10. For a selector \<^verbatim>\<open>'odd'\<close> or \<^verbatim>\<open>'even'\<close> and an angle that is a multiple of 90,
  \<^verbatim>\<open>rotate_pages\<close> returns; both documents keep their page count and the contents of
  their pages in order, the document that was not selected is unchanged, and apart from
  the two page lists and the console the object and the files are what they were.
\<close>

theorem rotate_pages_frame:
  assumes "target = ''odd'' \<or> target = ''even''" and "angle mod 90 = 0"
  shows "\<exists>s'. rotate_pages s target angle = Inr s' \<and>
    length (odd_reader s') = length (odd_reader s) \<and>
    length (even_reader s') = length (even_reader s) \<and>
    map content (odd_reader s') = map content (odd_reader s) \<and>
    map content (even_reader s') = map content (even_reader s) \<and>
    (target = ''odd'' \<longrightarrow> even_reader s' = even_reader s) \<and>
    (target = ''even'' \<longrightarrow> odd_reader s' = odd_reader s) \<and>
    s'\<lparr>odd_reader := odd_reader s, even_reader := even_reader s, out := out s\<rparr> = s"
proof -
  note r = rotate_pages_multiple[OF assms(2)]
  from assms(1) show ?thesis
  proof
    assume "target = ''odd''"
    then show ?thesis by (simp add: r o_def)
  next
    assume "target = ''even''"
    then show ?thesis by (simp add: r o_def)
  qed
qed


theorem rotate_pages_frame_witness:
  "(''even'' = ''odd'' \<or> ''even'' = ''even'') \<and> (180::int) mod 90 = 0 \<and>
   (case rotate_pages two_docs ''even'' 180 of
      Inl e \<Rightarrow> False
    | Inr s' \<Rightarrow>
        odd_reader s' = odd_reader two_docs \<and>
        length (even_reader s') = 3 \<and>
        map content (even_reader s') = [''B1'', ''B2'', ''B3''] \<and>
        map rotation (even_reader s') = [180, 180, 180])"
  using rotate_pages_frame [of "''even''" 180 two_docs]
  by (simp add: rotate_pages_def page_rotate_def print_def initial_def)

subsection \<open>Auxiliary facts about paths and moves\<close>

lemmas move_defs = shutil_move_def except_OSError_def move_files_def MergePDF_init_def

lemma dirname_archive:
  assumes "CHR ''/'' \<notin> set n"
  shows "os_path_dirname (''archive/'' @ n) = ''archive''"
proof -
  have "dropWhile (\<lambda>c. c \<noteq> CHR ''/'') (rev n @ rev ''archive/'') =
      dropWhile (\<lambda>c. c \<noteq> CHR ''/'') (rev ''archive/'')"
    using assms by (intro dropWhile_append2) auto
  then have "rev (dropWhile (\<lambda>c. c \<noteq> CHR ''/'') (rev (''archive/'' @ n))) = ''archive/''"
    by simp
  then show ?thesis
    by (simp add: os_path_dirname_def rstrip_sep_def Let_def)
qed

lemma join_archive:
  "CHR ''/'' \<notin> set d \<Longrightarrow>
   os_path_join ''archive'' (d @ CHR ''_'' # n) = ''archive/'' @ d @ CHR ''_'' # n"
  by (cases d) (auto simp: os_path_join_def)

lemma join_hd:
  "a \<noteq> [] \<Longrightarrow>
   os_path_join a b \<noteq> [] \<and> (hd (os_path_join a b) = hd a \<or> hd (os_path_join a b) = CHR ''/'')"
  by (cases b) (auto simp: os_path_join_def)

lemma parent_error_archive:
  "CHR ''/'' \<notin> set n \<Longrightarrow> f ''archive'' = Some Dir \<Longrightarrow> parent_error f (''archive/'' @ n) = None"
  by (simp add: parent_error_def dirname_archive del: append.simps)

lemma shutil_move_file:
  "f src = Some (File x) \<Longrightarrow> f dst \<noteq> Some Dir \<Longrightarrow> parent_error f dst = None \<Longrightarrow>
   shutil_move f src dst = Inr ((f(src := None))(dst \<mapsto> File x))"
  by (simp add: shutil_move_def os_path_isdir_def)

lemma shutil_move_frame:
  "shutil_move f src dst = Inr f' \<Longrightarrow> p \<noteq> src \<Longrightarrow> p \<noteq> dst \<Longrightarrow>
   p \<noteq> os_path_join dst (os_path_basename (rstrip_sep src)) \<Longrightarrow> f' p = f p"
  by (auto simp: shutil_move_def Let_def split: if_splits option.splits)

lemma shutil_move_error: "shutil_move f src dst = Inl e \<Longrightarrow> is_OSError e"
  by (auto simp: shutil_move_def parent_error_def Let_def split: if_splits option.splits node.splits)


lemma move_files_both:
  assumes names: "odd_file s = ''PRT_FRONT_000975.pdf''" "even_file s = ''PRT_BACK_000995.pdf''"
      "archive_folder s = ''archive''"
    and fr: "fs s ''PRT_FRONT_000975.pdf'' = Some (File front)"
    and bk: "fs s ''PRT_BACK_000995.pdf'' = Some (File back)"
    and d: "CHR ''/'' \<notin> set d"
    and arch: "fs s ''archive'' = None \<or> fs s ''archive'' = Some Dir"
    and nd1: "fs s (''archive/'' @ d @ ''_PRT_FRONT_000975.pdf'') \<noteq> Some Dir"
    and nd2: "fs s (''archive/'' @ d @ ''_PRT_BACK_000995.pdf'') \<noteq> Some Dir"
  shows "move_files d s =
    Inr (s\<lparr>fs := (fs s)(''archive'' := Some Dir,
                 ''PRT_FRONT_000975.pdf'' := None,
                 ''archive/'' @ d @ ''_PRT_FRONT_000975.pdf'' := Some (File front),
                 ''PRT_BACK_000995.pdf'' := None,
                 ''archive/'' @ d @ ''_PRT_BACK_000995.pdf'' := Some (File back)),
           out := out s @ [MovedTo ''archive'']\<rparr>)"
proof -
  define ga where "ga = (fs s)(''archive'' \<mapsto> Dir)"
  define f1 where "f1 = (ga(''PRT_FRONT_000975.pdf'' := None))
      (''archive/'' @ d @ ''_PRT_FRONT_000975.pdf'' \<mapsto> File front)"
  have s1: "(if \<not> os_path_exists (fs s) (archive_folder s)
             then s\<lparr>fs := os_makedirs (fs s) (archive_folder s)\<rparr> else s) = s\<lparr>fs := ga\<rparr>"
  proof (cases "fs s ''archive'' = None")
    case True
    then show ?thesis by (simp add: names os_path_exists_def os_makedirs_def ga_def)
  next
    case False
    with arch have "fs s ''archive'' = Some Dir" by simp
    then have "ga = fs s" by (auto simp: ga_def)
    with False show ?thesis by (simp add: names os_path_exists_def)
  qed
  have p1: "parent_error ga (''archive/'' @ d @ ''_PRT_FRONT_000975.pdf'') = None"
    using d by (intro parent_error_archive) (simp_all add: ga_def)
  have m1: "shutil_move ga ''PRT_FRONT_000975.pdf'' (''archive/'' @ d @ ''_PRT_FRONT_000975.pdf'') = Inr f1"
    unfolding f1_def using fr nd1 p1 by (intro shutil_move_file) (simp_all add: ga_def)
  have p2: "parent_error f1 (''archive/'' @ d @ ''_PRT_BACK_000995.pdf'') = None"
    using d by (intro parent_error_archive) (simp_all add: f1_def ga_def)
  have m2: "shutil_move f1 ''PRT_BACK_000995.pdf'' (''archive/'' @ d @ ''_PRT_BACK_000995.pdf'') =
      Inr ((f1(''PRT_BACK_000995.pdf'' := None))
             (''archive/'' @ d @ ''_PRT_BACK_000995.pdf'' \<mapsto> File back))"
    using bk nd2 p2 by (intro shutil_move_file) (simp_all add: f1_def ga_def)
  have j1: "os_path_join ''archive'' (d @ ''_'' @ ''PRT_FRONT_000975.pdf'') =
      ''archive/'' @ d @ ''_PRT_FRONT_000975.pdf''"
    using join_archive[OF d, of "''PRT_FRONT_000975.pdf''"] by simp
  have j2: "os_path_join ''archive'' (d @ ''_'' @ ''PRT_BACK_000995.pdf'') =
      ''archive/'' @ d @ ''_PRT_BACK_000995.pdf''"
    using join_archive[OF d, of "''PRT_BACK_000995.pdf''"] by simp
  have "move_files d s =
    Inr (s\<lparr>fs := (f1(''PRT_BACK_000995.pdf'' := None))
                 (''archive/'' @ d @ ''_PRT_BACK_000995.pdf'' \<mapsto> File back),
           out := out s @ [MovedTo ''archive'']\<rparr>)"
    unfolding move_files_def s1
    by (simp add: Let_def names j1 j2 m1 m2 print_def del: append.simps)
  then show ?thesis
    by (simp add: f1_def ga_def)
qed


lemma archive_path_not_merged:
  "os_path_join ''archive'' x \<noteq> ''merged_'' @ m"
  "os_path_join (os_path_join ''archive'' x) y \<noteq> ''merged_'' @ m"
proof -
  have a: "os_path_join ''archive'' x \<noteq> [] \<and>
      (hd (os_path_join ''archive'' x) = CHR ''a'' \<or> hd (os_path_join ''archive'' x) = CHR ''/'')"
    using join_hd[of "''archive''" x] by simp
  then show "os_path_join ''archive'' x \<noteq> ''merged_'' @ m"
    by auto
  from a join_hd[of "os_path_join ''archive'' x" y]
  have "hd (os_path_join (os_path_join ''archive'' x) y) = CHR ''a'' \<or>
      hd (os_path_join (os_path_join ''archive'' x) y) = CHR ''/''"
    by auto
  then show "os_path_join (os_path_join ''archive'' x) y \<noteq> ''merged_'' @ m"
    by auto
qed

lemma shutil_move_keeps_merged:
  assumes "shutil_move g src (os_path_join ''archive'' x) = Inr g'"
    and "src \<noteq> ''merged_'' @ m"
  shows "g' (''merged_'' @ m) = g (''merged_'' @ m)"
  using assms(1)
proof (rule shutil_move_frame)
  show "''merged_'' @ m \<noteq> src" using assms(2) by simp
  show "''merged_'' @ m \<noteq> os_path_join ''archive'' x"
    using archive_path_not_merged(1)[of x m] by simp
  show "''merged_'' @ m \<noteq> os_path_join (os_path_join ''archive'' x) (os_path_basename (rstrip_sep src))"
    using archive_path_not_merged(2)[of x _ m] by metis
qed

lemma open_files_names:
  "open_files s0 = Inr s1 \<Longrightarrow>
   odd_file s1 = odd_file s0 \<and> even_file s1 = even_file s0 \<and> merged s1 = merged s0 \<and>
   archive_folder s1 = archive_folder s0 \<and> fs s1 = fs s0 \<and> out s1 = out s0"
  by (auto simp: open_files_def split: sum.splits)

lemma check_pages_names:
  "odd_file (check_pages s) = odd_file s \<and> even_file (check_pages s) = even_file s \<and>
   archive_folder (check_pages s) = archive_folder s"
  by (simp add: check_pages_def print_def)

lemma merge_files_names:
  "merge_files s = Inr s' \<Longrightarrow>
   odd_file s' = odd_file s \<and> even_file s' = even_file s \<and> merged s' = merged s \<and>
   archive_folder s' = archive_folder s \<and> fs s' (merged s) = Some (File (merge s')) \<and>
   odd_reader s' = odd_reader s \<and> even_reader s' = even_reader s"
  by (auto simp: merge_files_def write_file_def print_def Let_def
      split: sum.splits option.splits node.splits)

lemma move_files_outcomes:
  assumes names: "odd_file s = ''PRT_FRONT_000975.pdf''" "even_file s = ''PRT_BACK_000995.pdf''"
      "archive_folder s = ''archive''"
    and fa: "fa = (if os_path_exists (fs s) ''archive'' then fs s else os_makedirs (fs s) ''archive'')"
    and o: "odd_new_name = os_path_join ''archive'' (d @ ''_PRT_FRONT_000975.pdf'')"
    and e: "even_new_name = os_path_join ''archive'' (d @ ''_PRT_BACK_000995.pdf'')"
  shows "\<exists>s4. move_files d s = Inr s4 \<and>
    s4\<lparr>fs := fs s, out := out s\<rparr> = s \<and>
    fs s4 (''merged_'' @ m) = fs s (''merged_'' @ m) \<and>
    (\<exists>l. out s4 = out s @ [l] \<and> (l = MovedTo ''archive'' \<or> (\<exists>e. is_OSError e \<and> l = MoveError e))) \<and>
    (\<forall>e. shutil_move fa ''PRT_FRONT_000975.pdf'' odd_new_name = Inl e \<longrightarrow>
       out s4 = out s @ [MoveError e] \<and> fs s4 = fa) \<and>
    (\<forall>f1 e. shutil_move fa ''PRT_FRONT_000975.pdf'' odd_new_name = Inr f1 \<and>
       shutil_move f1 ''PRT_BACK_000995.pdf'' even_new_name = Inl e \<longrightarrow>
       out s4 = out s @ [MoveError e] \<and> fs s4 = f1) \<and>
    (\<forall>f1 f2. shutil_move fa ''PRT_FRONT_000975.pdf'' odd_new_name = Inr f1 \<and>
       shutil_move f1 ''PRT_BACK_000995.pdf'' even_new_name = Inr f2 \<longrightarrow>
       out s4 = out s @ [MovedTo ''archive''] \<and> fs s4 = f2)"
proof -
  have s1: "(if \<not> os_path_exists (fs s) (archive_folder s)
             then s\<lparr>fs := os_makedirs (fs s) (archive_folder s)\<rparr> else s) = s\<lparr>fs := fa\<rparr>"
    by (simp add: names fa)
  have fam: "fa (''merged_'' @ m) = fs s (''merged_'' @ m)"
    by (simp add: fa os_makedirs_def)
  have mf: "move_files d s =
      (case shutil_move fa ''PRT_FRONT_000975.pdf'' odd_new_name of
         Inl e \<Rightarrow> except_OSError e (s\<lparr>fs := fa\<rparr>)
       | Inr f1 \<Rightarrow>
           (case shutil_move f1 ''PRT_BACK_000995.pdf'' even_new_name of
              Inl e \<Rightarrow> except_OSError e (s\<lparr>fs := f1\<rparr>)
            | Inr f2 \<Rightarrow> Inr (print (MovedTo ''archive'') (s\<lparr>fs := f2\<rparr>))))"
    unfolding move_files_def s1 by (simp add: Let_def names o e cong: sum.case_cong)
  show ?thesis
  proof (cases "shutil_move fa ''PRT_FRONT_000975.pdf'' odd_new_name")
    case (Inl err)
    then have "is_OSError err" by (rule shutil_move_error)
    with Inl fam show ?thesis
      by (simp add: mf except_OSError_def print_def)
  next
    case (Inr f1)
    have f1m: "f1 (''merged_'' @ m) = fa (''merged_'' @ m)"
      using Inr unfolding o by (rule shutil_move_keeps_merged) simp
    show ?thesis
    proof (cases "shutil_move f1 ''PRT_BACK_000995.pdf'' even_new_name")
      case (Inl err)
      then have "is_OSError err" by (rule shutil_move_error)
      with Inl Inr fam f1m show ?thesis
        by (simp add: mf except_OSError_def print_def)
    next
      case Inr2: (Inr f2)
      have "f2 (''merged_'' @ m) = f1 (''merged_'' @ m)"
        using Inr2 unfolding e by (rule shutil_move_keeps_merged) simp
      with Inr Inr2 fam f1m show ?thesis
        by (simp add: mf print_def)
    qed
  qed
qed


subsection \<open>Archiving the inputs\<close>

text \<open>
  C6, as the code has it. In a run whose merge succeeds, with a date that holds no
  \<open>/\<close> and the archive folder absent or a directory, and provided that no directory is
  stored under either destination name, each input is moved to
  \<^verbatim>\<open>archive/{date}_{original_name}\<close>: the destination holds the input's document
  afterwards, whether or not a regular file was stored there before, the input is gone
  from the working directory, and the console reports success. A regular file already
  stored under a destination name is replaced without a report.
\<close>

theorem archive_relocates:
  assumes fr: "f ''PRT_FRONT_000975.pdf'' = Some (File front)"
    and bk: "f ''PRT_BACK_000995.pdf'' = Some (File back)"
    and len: "length front = length back"
    and wr: "writable f (''merged_'' @ m @ ''.pdf'')"
    and d: "CHR ''/'' \<notin> set d"
    and arch: "f ''archive'' = None \<or> f ''archive'' = Some Dir"
    and nd1: "f (''archive/'' @ d @ ''_PRT_FRONT_000975.pdf'') \<noteq> Some Dir"
    and nd2: "f (''archive/'' @ d @ ''_PRT_BACK_000995.pdf'') \<noteq> Some Dir"
  shows "\<exists>s. MergePDF_init m d f = Inr s \<and>
    fs s (''archive/'' @ d @ ''_PRT_FRONT_000975.pdf'') = Some (File front) \<and>
    fs s (''archive/'' @ d @ ''_PRT_BACK_000995.pdf'') = Some (File back) \<and>
    fs s ''PRT_FRONT_000975.pdf'' = None \<and> fs s ''PRT_BACK_000995.pdf'' = None \<and>
    fs s ''archive'' = Some Dir \<and>
    out s = [EqualPages, MergedInto (''merged_'' @ m @ ''.pdf''), MovedTo ''archive'', Finished]"
proof -
  define w where "w = concat (map (\<lambda>x. [front ! x, rev back ! x]) [0..<length front])"
  define s1 where "s1 = (initial m f)\<lparr>odd_reader := front, even_reader := back,
            odd_pages := length front, even_pages := length back\<rparr>"
  define s3 where "s3 = s1\<lparr>check := True, merge := w,
      fs := (fs (initial m f))(merged (initial m f) \<mapsto> File w),
      out := out (initial m f) @ [EqualPages, MergedInto (merged (initial m f))]\<rparr>"
  have pre: "open_files (initial m f) = Inr s1 \<and> check (check_pages s1) \<and>
      merge_files (check_pages s1) = Inr s3"
    unfolding s3_def using wr
    by (intro merge_after_check[of _ front "back"])
      (simp_all add: initial_def fr bk len w_def s1_def)
  have mv: "move_files d s3 =
    Inr (s3\<lparr>fs := (fs s3)(''archive'' := Some Dir,
                 ''PRT_FRONT_000975.pdf'' := None,
                 ''archive/'' @ d @ ''_PRT_FRONT_000975.pdf'' := Some (File front),
                 ''PRT_BACK_000995.pdf'' := None,
                 ''archive/'' @ d @ ''_PRT_BACK_000995.pdf'' := Some (File back)),
           out := out s3 @ [MovedTo ''archive'']\<rparr>)"
    using fr bk d arch nd1 nd2
    by (intro move_files_both) (simp_all add: s3_def s1_def initial_def)
  show ?thesis
    using pre by (simp add: MergePDF_init_def mv print_def) (simp add: s3_def s1_def initial_def)
qed

theorem archive_relocates_witness:
  "archived_before ''PRT_FRONT_000975.pdf'' = Some (File [pg ''F1'']) \<and>
   archived_before ''PRT_BACK_000995.pdf'' = Some (File [pg ''B1'']) \<and>
   length [pg ''F1''] = length [pg ''B1''] \<and>
   writable archived_before (''merged_'' @ ''20250103_1200'' @ ''.pdf'') \<and>
   CHR ''/'' \<notin> set ''2025-01-03'' \<and>
   (archived_before ''archive'' = None \<or> archived_before ''archive'' = Some Dir) \<and>
   archived_before (''archive/'' @ ''2025-01-03'' @ ''_PRT_FRONT_000975.pdf'') \<noteq> Some Dir \<and>
   archived_before (''archive/'' @ ''2025-01-03'' @ ''_PRT_BACK_000995.pdf'') \<noteq> Some Dir \<and>
   (case MergePDF_init ''20250103_1200'' ''2025-01-03'' archived_before of
      Inl e \<Rightarrow> False
    | Inr s \<Rightarrow>
        fs s ''archive/2025-01-03_PRT_FRONT_000975.pdf'' = Some (File [pg ''F1'']) \<and>
        fs s ''archive/2025-01-03_PRT_BACK_000995.pdf'' = Some (File [pg ''B1'']) \<and>
        fs s ''PRT_FRONT_000975.pdf'' = None \<and> fs s ''PRT_BACK_000995.pdf'' = None)"
proof -
  have h: "writable archived_before (''merged_'' @ ''20250103_1200'' @ ''.pdf'')"
    by (simp add: path_defs)
  have ev: "(case MergePDF_init ''20250103_1200'' ''2025-01-03'' archived_before of
      Inl e \<Rightarrow> False
    | Inr s \<Rightarrow>
        fs s ''archive/2025-01-03_PRT_FRONT_000975.pdf'' = Some (File [pg ''F1'']) \<and>
        fs s ''archive/2025-01-03_PRT_BACK_000995.pdf'' = Some (File [pg ''B1'']) \<and>
        fs s ''PRT_FRONT_000975.pdf'' = None \<and> fs s ''PRT_BACK_000995.pdf'' = None)"
    using archive_relocates [of archived_before "[pg ''F1'']" "[pg ''B1'']"
        "''20250103_1200''" "''2025-01-03''", OF _ _ _ h]
    by auto
  show ?thesis
    using h ev by simp
qed

text \<open>
  C6, as the specification states it, fails: here the archive holds a document
  \<open>OLD\<close> under the destination name of the front scan. After the run that name holds
  the front scan, and the console reports the move as done.
\<close>

theorem archive_overwrites_counterexample:
  "archived_before ''archive/2025-01-03_PRT_FRONT_000975.pdf'' = Some (File [pg ''OLD'']) \<and>
   (case MergePDF_init ''20250103_1200'' ''2025-01-03'' archived_before of
      Inl e \<Rightarrow> False
    | Inr s \<Rightarrow>
        fs s ''archive/2025-01-03_PRT_FRONT_000975.pdf'' = Some (File [pg ''F1'']) \<and>
        out s = [EqualPages, MergedInto ''merged_20250103_1200.pdf'', MovedTo ''archive'', Finished])"
  by (simp add: stage_defs path_defs move_defs)

text \<open>
  Why the destination names must not be taken by a directory: \<^verbatim>\<open>shutil.move\<close> moves
  into a destination that is a directory. Here the archive holds a directory under the
  destination name of the front scan; the run reports success, and the front scan lies
  inside that directory under its original name.
\<close>

lemma archive_into_directory:
  "(case MergePDF_init ''20250103_1200'' ''2025-01-03'' directory_in_archive of
      Inl e \<Rightarrow> False
    | Inr s \<Rightarrow>
        fs s ''archive/2025-01-03_PRT_FRONT_000975.pdf'' = Some Dir \<and>
        fs s ''archive/2025-01-03_PRT_FRONT_000975.pdf/PRT_FRONT_000975.pdf'' =
          Some (File [pg ''F1'']) \<and>
        fs s ''archive/2025-01-03_PRT_BACK_000995.pdf'' = Some (File [pg ''B1'']) \<and>
        fs s ''PRT_FRONT_000975.pdf'' = None \<and> fs s ''PRT_BACK_000995.pdf'' = None \<and>
        out s = [EqualPages, MergedInto ''merged_20250103_1200.pdf'', MovedTo ''archive'', Finished])"
  by (simp add: stage_defs path_defs move_defs)

subsection \<open>Archiving failures after a successful merge\<close>

text \<open>
  C7, as the code has it. In a run whose merge has succeeded, \<^verbatim>\<open>move_files\<close> returns
  and the constructor finishes. The merged document is still stored under the output
  name, unaltered. The archiving step prints exactly one line: the success line, or the
  error of the first move that failed. When the move of the front scan fails, the back
  scan is not moved and nothing about it is reported; when the move of the back scan
  fails, the front scan stays moved. No move is tried a second time.
\<close>

theorem archiving_failure_contained:
  assumes op: "open_files (initial m f) = Inr s1"
    and ch: "check (check_pages s1)"
    and mg: "merge_files (check_pages s1) = Inr s3"
    and fa: "fa = (if os_path_exists (fs s3) ''archive'' then fs s3
                   else os_makedirs (fs s3) ''archive'')"
    and o: "odd_new_name = os_path_join ''archive'' (d @ ''_PRT_FRONT_000975.pdf'')"
    and e: "even_new_name = os_path_join ''archive'' (d @ ''_PRT_BACK_000995.pdf'')"
  shows "\<exists>s4. move_files d s3 = Inr s4 \<and>
    MergePDF_init m d f = Inr (print Finished s4) \<and>
    fs s3 (merged s3) = Some (File (merge s3)) \<and>
    fs s4 (merged s3) = Some (File (merge s3)) \<and> merge s4 = merge s3 \<and>
    (\<exists>l. out s4 = out s3 @ [l] \<and>
       (l = MovedTo ''archive'' \<or> (\<exists>e. is_OSError e \<and> l = MoveError e))) \<and>
    (\<forall>e. shutil_move fa ''PRT_FRONT_000975.pdf'' odd_new_name = Inl e \<longrightarrow>
       out s4 = out s3 @ [MoveError e] \<and> fs s4 = fa) \<and>
    (\<forall>f1 e. shutil_move fa ''PRT_FRONT_000975.pdf'' odd_new_name = Inr f1 \<and>
       shutil_move f1 ''PRT_BACK_000995.pdf'' even_new_name = Inl e \<longrightarrow>
       out s4 = out s3 @ [MoveError e] \<and> fs s4 = f1)"
proof -
  have n1: "odd_file s1 = ''PRT_FRONT_000975.pdf''" "even_file s1 = ''PRT_BACK_000995.pdf''"
      "archive_folder s1 = ''archive''" "merged s1 = ''merged_'' @ m @ ''.pdf''"
    using open_files_names[OF op] by (simp_all add: initial_def)
  have n3: "odd_file s3 = ''PRT_FRONT_000975.pdf''" "even_file s3 = ''PRT_BACK_000995.pdf''"
      "archive_folder s3 = ''archive''"
    and m3: "merged s3 = ''merged_'' @ (m @ ''.pdf'')"
    and w3: "fs s3 (merged s3) = Some (File (merge s3))"
    using merge_files_names[OF mg] n1 by (simp_all add: check_pages_names check_pages_frame)
  from move_files_outcomes[OF n3 fa o e, where m = "m @ ''.pdf''"]
  obtain s4 where mv: "move_files d s3 = Inr s4"
    and same: "s4\<lparr>fs := fs s3, out := out s3\<rparr> = s3"
    and kept: "fs s4 (''merged_'' @ m @ ''.pdf'') = fs s3 (''merged_'' @ m @ ''.pdf'')"
    and rest: "(\<exists>l. out s4 = out s3 @ [l] \<and>
       (l = MovedTo ''archive'' \<or> (\<exists>e. is_OSError e \<and> l = MoveError e))) \<and>
    (\<forall>e. shutil_move fa ''PRT_FRONT_000975.pdf'' odd_new_name = Inl e \<longrightarrow>
       out s4 = out s3 @ [MoveError e] \<and> fs s4 = fa) \<and>
    (\<forall>f1 e. shutil_move fa ''PRT_FRONT_000975.pdf'' odd_new_name = Inr f1 \<and>
       shutil_move f1 ''PRT_BACK_000995.pdf'' even_new_name = Inl e \<longrightarrow>
       out s4 = out s3 @ [MoveError e] \<and> fs s4 = f1)"
    by blast
  have mm: "merge s4 = merge s3"
    using arg_cong[OF same, of merge] by simp
  have run: "MergePDF_init m d f = Inr (print Finished s4)"
    by (simp add: MergePDF_init_def op ch mg mv)
  have kept': "fs s4 (merged s3) = Some (File (merge s3))"
    using kept w3 m3 by simp
  from mv run w3 kept' mm rest show ?thesis
    by blast
qed


theorem archiving_failure_contained_witness:
  "open_files (initial ''20250103_1200'' archive_is_file) = Inr read1 \<and>
   check (check_pages read1) \<and>
   merge_files (check_pages read1) = Inr merged1 \<and>
   (case move_files ''2025-01-03'' merged1 of
      Inl e \<Rightarrow> False
    | Inr s4 \<Rightarrow>
        out s4 = out merged1 @ [MoveError NotADirectoryError] \<and>
        fs s4 ''merged_20250103_1200.pdf'' = Some (File [pg ''F1'', pg ''B1'']) \<and>
        fs s4 ''PRT_FRONT_000975.pdf'' = Some (File [pg ''F1'']) \<and>
        fs s4 ''PRT_BACK_000995.pdf'' = Some (File [pg ''B1'']))"
proof -
  have op: "open_files (initial ''20250103_1200'' archive_is_file) = Inr read1"
    by (simp add: initial_def open_files_def PdfReader_def)
  have ch: "check (check_pages read1)"
    by (simp add: initial_def check_pages_def print_def)
  have mg: "merge_files (check_pages read1) = Inr merged1"
    by (simp add: stage_defs path_defs)
  have fail: "shutil_move
      (if os_path_exists (fs merged1) ''archive'' then fs merged1
       else os_makedirs (fs merged1) ''archive'')
      ''PRT_FRONT_000975.pdf''
      (os_path_join ''archive'' (''2025-01-03'' @ ''_PRT_FRONT_000975.pdf'')) =
      Inl NotADirectoryError"
    by (simp add: initial_def path_defs shutil_move_def)
  from archiving_failure_contained [OF op ch mg refl refl refl, of "''2025-01-03''"]
  obtain s4 where mv: "move_files ''2025-01-03'' merged1 = Inr s4"
    and kept: "fs s4 (merged merged1) = Some (File (merge merged1))"
    and first: "\<forall>e. shutil_move
      (if os_path_exists (fs merged1) ''archive'' then fs merged1
       else os_makedirs (fs merged1) ''archive'')
      ''PRT_FRONT_000975.pdf''
      (os_path_join ''archive'' (''2025-01-03'' @ ''_PRT_FRONT_000975.pdf'')) = Inl e \<longrightarrow>
       out s4 = out merged1 @ [MoveError e] \<and>
       fs s4 = (if os_path_exists (fs merged1) ''archive'' then fs merged1
                else os_makedirs (fs merged1) ''archive'')"
    by blast
  from first fail have r: "out s4 = out merged1 @ [MoveError NotADirectoryError]"
    and f4: "fs s4 = (if os_path_exists (fs merged1) ''archive'' then fs merged1
                else os_makedirs (fs merged1) ''archive'')"
    by blast+
  have "fs s4 ''merged_20250103_1200.pdf'' = Some (File [pg ''F1'', pg ''B1''])"
    using kept by (simp add: initial_def)
  moreover have "fs s4 ''PRT_FRONT_000975.pdf'' = Some (File [pg ''F1''])"
    "fs s4 ''PRT_BACK_000995.pdf'' = Some (File [pg ''B1''])"
    unfolding f4 by (simp_all add: initial_def os_path_exists_def)
  ultimately show ?thesis
    using op ch mg mv r by simp
qed

text \<open>
  C7, as the specification states it, fails: with a regular file named \<^verbatim>\<open>archive\<close>
  neither input can be moved, yet a single error is reported, that of the front scan.
\<close>

theorem archive_single_report_counterexample:
  "(case MergePDF_init ''20250103_1200'' ''2025-01-03'' archive_is_file of
      Inl e \<Rightarrow> False
    | Inr s \<Rightarrow>
        out s = [EqualPages, MergedInto ''merged_20250103_1200.pdf'',
                 MoveError NotADirectoryError, Finished] \<and>
        fs s ''PRT_FRONT_000975.pdf'' = Some (File [pg ''F1'']) \<and>
        fs s ''PRT_BACK_000995.pdf'' = Some (File [pg ''B1'']) \<and>
        shutil_move (fs s) ''PRT_FRONT_000975.pdf'' ''archive/2025-01-03_PRT_FRONT_000975.pdf'' =
          Inl NotADirectoryError \<and>
        shutil_move (fs s) ''PRT_BACK_000995.pdf'' ''archive/2025-01-03_PRT_BACK_000995.pdf'' =
          Inl NotADirectoryError)"
  by (simp add: stage_defs path_defs move_defs)


end
